theory Spec2Isabelle
  imports Complex_Main "HOL-Library.Signed_Division"
begin

section \<open>Golden hour and blue hour windows of \<open>GoldenHourApp.tsx\<close>\<close>

text \<open>
  The component keeps three pieces of state (\<open>location\<close>, \<open>sunTimes\<close>, \<open>currentTime\<close>)
  and derives everything it shows from them with four closures:
  the effect that fills \<open>sunTimes\<close>, \<open>getCurrentLightingCondition\<close>,
  \<open>getNextSpecialTime\<close> and \<open>formatTimeUntil\<close>.  Each closure is embedded as a function of
  the state variables it reads.

  Instants are the values of \<open>Date.getTime()\<close>: whole milliseconds since the epoch.
  They are modelled as \<open>int\<close>.  JavaScript keeps them in doubles, where sums, differences
  and comparisons of integers of this size are exact; the model covers valid dates only
  (a date whose time value is \<open>NaN\<close> is outside it).
\<close>

type_synonym instant = int

subsection \<open>Data\<close>

text \<open>\<open>interface Location\<close>.  The coordinates are only handed on to the sunrise/sunset
  provider.\<close>

record Location =
  latitude :: real
  longitude :: real

text \<open>The part of the object returned by \<open>SunCalc.getTimes\<close> that the component reads.\<close>

record Times =
  sunrise :: instant
  sunset :: instant

text \<open>\<open>interface SunTimes\<close>: six dates.  Its \<open>sunrise\<close> and \<open>sunset\<close> carry the same
  names as the provider's fields, so the record extends \<open>Times\<close>.\<close>

record SunTimes = Times +
  goldenHourStart :: instant
  goldenHourEnd :: instant
  blueHourStart :: instant
  blueHourEnd :: instant

text \<open>The eight constants computed inside the effect (source lines 44 to 53).\<close>

record Windows =
  goldenHourMorningStart :: instant
  goldenHourMorningEnd :: instant
  goldenHourEveningStart :: instant
  goldenHourEveningEnd :: instant
  blueHourMorningStart :: instant
  blueHourMorningEnd :: instant
  blueHourEveningStart :: instant
  blueHourEveningEnd :: instant

text \<open>The component state read by the closures.\<close>

record AppState =
  location :: "Location option"
  sunTimes :: "SunTimes option"
  currentTime :: instant

text \<open>What the component takes from its host: the wall clock read by \<open>new Date()\<close>,
  the calendar step \<open>d.setDate(d.getDate() + 1)\<close> of the host's time zone, and the
  sunrise/sunset provider \<open>SunCalc.getTimes(date, latitude, longitude)\<close>.\<close>

record Host =
  clock :: instant
  plusOneDay :: "instant \<Rightarrow> instant"
  getTimes :: "instant \<Rightarrow> real \<Rightarrow> real \<Rightarrow> Times"

text \<open>The three string literals returned by \<open>getCurrentLightingCondition\<close>.\<close>

datatype Lighting = Day | Golden | Blue

text \<open>The objects \<open>{ type, time }\<close> built by \<open>getNextSpecialTime\<close>.\<close>

record Event =
  type :: string
  time :: instant

text \<open>Reading a property of \<open>null\<close> throws.\<close>

datatype error = TypeError

subsection \<open>The effect computing the sun times\<close>

definition computeWindows :: "Times \<Rightarrow> Windows" where
  "computeWindows times' =
     \<lparr> goldenHourMorningStart = sunrise times',
       goldenHourMorningEnd = sunrise times' + 30 * 60 * 1000,
       goldenHourEveningStart = sunset times' - 30 * 60 * 1000,
       goldenHourEveningEnd = sunset times',
       blueHourMorningStart = sunrise times' - 20 * 60 * 1000,
       blueHourMorningEnd = sunrise times',
       blueHourEveningStart = sunset times',
       blueHourEveningEnd = sunset times' + 20 * 60 * 1000 \<rparr>"

text \<open>The argument of \<open>setSunTimes\<close>: four of the eight constants and the two instants
  of the provider.\<close>

definition newSunTimes :: "Times \<Rightarrow> SunTimes" where
  "newSunTimes times' =
     (let w = computeWindows times' in
      \<lparr> sunrise = sunrise times',
        sunset = sunset times',
        goldenHourStart = goldenHourMorningStart w,
        goldenHourEnd = goldenHourEveningEnd w,
        blueHourStart = blueHourMorningStart w,
        blueHourEnd = blueHourEveningEnd w \<rparr>)"

text \<open>\<open>useEffect(..., [location])\<close>: nothing happens without a location.\<close>

definition sunTimesEffect :: "Host \<Rightarrow> AppState \<Rightarrow> AppState" where
  "sunTimesEffect h s =
     (case location s of
        None \<Rightarrow> s
      | Some loc \<Rightarrow>
          s\<lparr> sunTimes :=
               Some (newSunTimes (getTimes h (clock h) (latitude loc) (longitude loc))) \<rparr>)"

subsection \<open>Classifying the current instant\<close>

definition getCurrentLightingCondition :: "SunTimes option \<Rightarrow> instant \<Rightarrow> Lighting" where
  "getCurrentLightingCondition st currentTime' =
     (case st of
        None \<Rightarrow> Day
      | Some sunTimes' \<Rightarrow>
          (let now = currentTime';
               morningGoldenStart = goldenHourStart sunTimes';
               morningGoldenEnd = goldenHourStart sunTimes' + 30 * 60 * 1000;
               eveningGoldenStart = sunset sunTimes' - 30 * 60 * 1000;
               eveningGoldenEnd = sunset sunTimes';
               morningBlueStart = sunrise sunTimes' - 20 * 60 * 1000;
               morningBlueEnd = sunrise sunTimes';
               eveningBlueStart = sunset sunTimes';
               eveningBlueEnd = sunset sunTimes' + 20 * 60 * 1000
           in if (now \<ge> morningGoldenStart \<and> now \<le> morningGoldenEnd) \<or>
                 (now \<ge> eveningGoldenStart \<and> now \<le> eveningGoldenEnd) then Golden
              else if (now \<ge> morningBlueStart \<and> now \<le> morningBlueEnd) \<or>
                      (now \<ge> eveningBlueStart \<and> now \<le> eveningBlueEnd) then Blue
              else Day))"

text \<open>The variant the specification compares with: the same boundaries, the blue test
  placed before the golden test.\<close>

definition classifyBlueFirst :: "SunTimes option \<Rightarrow> instant \<Rightarrow> Lighting" where
  "classifyBlueFirst st currentTime' =
     (case st of
        None \<Rightarrow> Day
      | Some sunTimes' \<Rightarrow>
          (let now = currentTime';
               morningGoldenStart = goldenHourStart sunTimes';
               morningGoldenEnd = goldenHourStart sunTimes' + 30 * 60 * 1000;
               eveningGoldenStart = sunset sunTimes' - 30 * 60 * 1000;
               eveningGoldenEnd = sunset sunTimes';
               morningBlueStart = sunrise sunTimes' - 20 * 60 * 1000;
               morningBlueEnd = sunrise sunTimes';
               eveningBlueStart = sunset sunTimes';
               eveningBlueEnd = sunset sunTimes' + 20 * 60 * 1000
           in if (now \<ge> morningBlueStart \<and> now \<le> morningBlueEnd) \<or>
                 (now \<ge> eveningBlueStart \<and> now \<le> eveningBlueEnd) then Blue
              else if (now \<ge> morningGoldenStart \<and> now \<le> morningGoldenEnd) \<or>
                      (now \<ge> eveningGoldenStart \<and> now \<le> eveningGoldenEnd) then Golden
              else Day))"

subsection \<open>The next special time\<close>

text \<open>The array \<open>times\<close> of \<open>getNextSpecialTime\<close>, in the order of the literal.\<close>

definition times_list :: "SunTimes \<Rightarrow> Event list" where
  "times_list sunTimes' =
     [ \<lparr> type = ''Blue Hour (Morning)'', time = sunrise sunTimes' - 20 * 60 * 1000 \<rparr>,
       \<lparr> type = ''Golden Hour (Morning)'', time = sunrise sunTimes' \<rparr>,
       \<lparr> type = ''Golden Hour (Evening)'', time = sunset sunTimes' - 30 * 60 * 1000 \<rparr>,
       \<lparr> type = ''Blue Hour (Evening)'', time = sunset sunTimes' \<rparr> ]"

text \<open>\<open>null\<close> is \<open>None\<close>.  The roll-over branch reads the wall clock, not \<open>currentTime\<close>,
  and dereferences \<open>location!\<close>, which throws when the location is \<open>null\<close>.\<close>

definition getNextSpecialTime ::
  "Host \<Rightarrow> Location option \<Rightarrow> SunTimes option \<Rightarrow> instant \<Rightarrow> error + Event option" where
  "getNextSpecialTime h location' st currentTime' =
     (case st of
        None \<Rightarrow> Inr None
      | Some sunTimes' \<Rightarrow>
          (let now = currentTime';
               upcomingTimes = filter (\<lambda>t. time t > now) (times_list sunTimes')
           in if length upcomingTimes > 0 then Inr (Some (upcomingTimes ! 0))
              else
                (let tomorrow = plusOneDay h (clock h) in
                 case location' of
                   None \<Rightarrow> Inl TypeError
                 | Some loc \<Rightarrow>
                     (let tomorrowTimes = getTimes h tomorrow (latitude loc) (longitude loc)
                      in Inr (Some \<lparr> type = ''Blue Hour (Morning)'',
                                     time = sunrise tomorrowTimes - 20 * 60 * 1000 \<rparr>)))))"

subsection \<open>The countdown string\<close>

text \<open>\<open>Number.prototype.toString\<close> on an integer: its decimal digits, with a sign.\<close>

definition digitChar :: "nat \<Rightarrow> char" where
  "digitChar d = ''0123456789'' ! d"

fun digits :: "nat \<Rightarrow> string" where
  "digits n = (if n < 10 then [digitChar n] else digits (n div 10) @ [digitChar (n mod 10)])"

declare digits.simps [simp del]

definition toString :: "int \<Rightarrow> string" where
  "toString i = (if i < 0 then CHR ''-'' # digits (nat (- i)) else digits (nat i))"

text \<open>\<open>String.prototype.padStart\<close> with a one-character pad string.\<close>

definition padStart :: "nat \<Rightarrow> char \<Rightarrow> string \<Rightarrow> string" where
  "padStart targetLength c s = replicate (targetLength - length s) c @ s"

text \<open>JavaScript's \<open>%\<close> takes the sign of the dividend: it is \<open>smod\<close>.  \<open>Math.floor\<close> of a
  quotient of integers is \<open>div\<close>.\<close>

definition formatTimeUntil :: "instant \<Rightarrow> instant \<Rightarrow> string" where
  "formatTimeUntil currentTime' targetTime =
     (let diffMs = targetTime - currentTime' in
      if diffMs \<le> 0 then ''00:00:00''
      else
        (let hours = diffMs div (1000 * 60 * 60);
             minutes = (diffMs smod (1000 * 60 * 60)) div (1000 * 60);
             seconds = (diffMs smod (1000 * 60)) div 1000
         in padStart 2 CHR ''0'' (toString hours) @ '':'' @
            padStart 2 CHR ''0'' (toString minutes) @ '':'' @
            padStart 2 CHR ''0'' (toString seconds)))"

text \<open>The countdown as the specification words it: nothing left when the target is not
  after now; otherwise the whole seconds remaining, split into hours (unbounded), minutes
  and seconds, each written with at least two digits.\<close>

definition twoDigits_spec :: "int \<Rightarrow> string" where
  "twoDigits_spec n = (if 0 \<le> n \<and> n < 10 then CHR ''0'' # toString n else toString n)"

definition formatCountdown_spec :: "instant \<Rightarrow> instant \<Rightarrow> string" where
  "formatCountdown_spec target now =
     (if target \<le> now then ''00:00:00''
      else
        (let total = (target - now) div 1000;
             h = total div 3600;
             m = (total - h * 3600) div 60;
             s = total - h * 3600 - m * 60
         in twoDigits_spec h @ '':'' @ twoDigits_spec m @ '':'' @ twoDigits_spec s))"

subsection \<open>Windows as half-open intervals\<close>

text \<open>The specification reads each window as an interval \<open>[start, end)\<close> of instants.
  The four windows are paired up from the constants of \<open>computeWindows\<close>.\<close>

type_synonym interval = "instant \<times> instant"

definition morningBlue :: "Windows \<Rightarrow> interval" where
  "morningBlue w = (blueHourMorningStart w, blueHourMorningEnd w)"

definition morningGolden :: "Windows \<Rightarrow> interval" where
  "morningGolden w = (goldenHourMorningStart w, goldenHourMorningEnd w)"

definition eveningGolden :: "Windows \<Rightarrow> interval" where
  "eveningGolden w = (goldenHourEveningStart w, goldenHourEveningEnd w)"

definition eveningBlue :: "Windows \<Rightarrow> interval" where
  "eveningBlue w = (blueHourEveningStart w, blueHourEveningEnd w)"

definition inside :: "instant \<Rightarrow> interval \<Rightarrow> bool" where
  "inside t u = (fst u \<le> t \<and> t < snd u)"

text \<open>Two half-open intervals share an instant when the later start lies before the
  earlier end.\<close>

definition overlap :: "interval \<Rightarrow> interval \<Rightarrow> bool" where
  "overlap u v = (max (fst u) (fst v) < min (snd u) (snd v))"

subsection \<open>A sample host\<close>

text \<open>A host used to run the closures on concrete inputs: its calendar is UTC, where the
  next day is 24 hours later, and its provider puts sunrise and sunset at the same two
  times of day (\<open>rise\<close> and \<open>set\<close> milliseconds after midnight) on every day.\<close>

definition dayMs :: int where
  "dayMs = 24 * 60 * 60 * 1000"

definition nextUtcDay :: "instant \<Rightarrow> instant" where
  "nextUtcDay t = t + dayMs"

definition dailyTimes :: "int \<Rightarrow> int \<Rightarrow> instant \<Rightarrow> real \<Rightarrow> real \<Rightarrow> Times" where
  "dailyTimes rise set' date lat lng =
     \<lparr> sunrise = (date div dayMs) * dayMs + rise,
       sunset = (date div dayMs) * dayMs + set' \<rparr>"

definition sampleHost :: "int \<Rightarrow> int \<Rightarrow> instant \<Rightarrow> Host" where
  "sampleHost rise set' now =
     \<lparr> clock = now, plusOneDay = nextUtcDay, getTimes = dailyTimes rise set' \<rparr>"

definition sampleLocation :: Location where
  "sampleLocation = \<lparr> latitude = 69, longitude = 0 \<rparr>"

text \<open>The UTC calendar date of an instant, as a number of days since the epoch.\<close>

definition utcDate :: "instant \<Rightarrow> int" where
  "utcDate t = t div dayMs"

text \<open>A second sample provider.  Like \<open>SunCalc.getTimes\<close> it answers for the solar day
  whose noon is nearest to the instant it is given: solar noon falls \<open>noon\<close> milliseconds
  after UTC midnight, sunrise and sunset \<open>half\<close> milliseconds before and after it.\<close>

definition nearestNoonTimes :: "int \<Rightarrow> int \<Rightarrow> instant \<Rightarrow> real \<Rightarrow> real \<Rightarrow> Times" where
  "nearestNoonTimes noon half date lat lng =
     (let n = (date - noon + dayMs div 2) div dayMs;
          transit = n * dayMs + noon
      in \<lparr> sunrise = transit - half, sunset = transit + half \<rparr>)"

text \<open>A host 15 degrees west of its time zone's meridian: solar noon at 13:00 UTC, sunrise
  at 07:00 and sunset at 19:00.\<close>

definition westHost :: "instant \<Rightarrow> Host" where
  "westHost now =
     \<lparr> clock = now, plusOneDay = nextUtcDay,
       getTimes = nearestNoonTimes 46800000 21600000 \<rparr>"

definition westLocation :: Location where
  "westLocation = \<lparr> latitude = 28, longitude = - 15 \<rparr>"

section \<open>Auxiliary facts\<close>

text \<open>An instant lies in both of two half-open intervals exactly when they overlap.\<close>

lemma overlap_iff: "overlap u v \<longleftrightarrow> (\<exists>t. inside t u \<and> inside t v)"
proof
  assume "overlap u v"
  then have "inside (max (fst u) (fst v)) u \<and> inside (max (fst u) (fst v)) v"
    by (auto simp: overlap_def inside_def)
  then show "\<exists>t. inside t u \<and> inside t v" ..
next
  assume "\<exists>t. inside t u \<and> inside t v"
  then show "overlap u v" by (auto simp: overlap_def inside_def)
qed

text \<open>On a positive difference JavaScript's remainder is the mathematical one.\<close>

lemma smod_pos: "0 \<le> (a::int) \<Longrightarrow> 0 < b \<Longrightarrow> a smod b = a mod b"
  by (simp add: signed_modulo_int_def sgn_if)

lemma digits_lt10: "n < 10 \<Longrightarrow> digits n = [digitChar n]"
  by (simp add: digits.simps)

lemma digits_len: "length (digits n) \<ge> 1"
  by (induction n rule: digits.induct) (subst digits.simps, simp)

lemma digits_len2: "10 \<le> n \<Longrightarrow> length (digits n) \<ge> 2"
  using digits_len [of "n div 10"] by (subst digits.simps) simp

lemma digits_0: "digits 0 = ''0''"
  by (simp add: digits.simps digitChar_def)

lemma digits_1: "digits (Suc 0) = ''1''"
  by (simp add: digits.simps digitChar_def)

lemma digits_25: "digits 25 = ''25''"
  by (simp add: digits.simps digitChar_def)

text \<open>\<open>padStart(2, '0')\<close> on a non-negative number writes at least two digits.\<close>

lemma pad_two: "0 \<le> n \<Longrightarrow> padStart 2 CHR ''0'' (toString n) = twoDigits_spec n"
  using digits_len2 [of "nat n"]
  by (auto simp: padStart_def twoDigits_spec_def toString_def digits_lt10 numeral_2_eq_2)

lemma mod_div_shift:
  "0 < b \<Longrightarrow> 0 < c \<Longrightarrow> ((d::int) mod (b * c)) div b = (d div b) mod c"
proof -
  assume b: "0 < b" and c: "0 < c"
  have "d mod (b * c) = b * (d div b mod c) + d mod b"
    using c by (simp add: zmod_zmult2_eq)
  then have "(d mod (b * c)) div b = (b * (d div b mod c) + d mod b) div b" by simp
  also have "\<dots> = d div b mod c"
    using b by simp
  finally show ?thesis .
qed

lemma hours_eq: "(d::int) div (1000 * 60 * 60) = d div 1000 div 3600"
  by (simp add: div_mult2_eq)

lemma minutes_eq:
  "((d::int) mod (1000 * 60 * 60)) div (1000 * 60) =
     (d div 1000 - (d div 1000 div 3600) * 3600) div 60"
proof -
  have "(d mod (1000 * 60 * 60)) div (1000 * 60) = (d mod (1000 * 3600)) div 1000 div 60"
    by (simp add: div_mult2_eq)
  also have "(d mod (1000 * 3600)) div 1000 = (d div 1000) mod 3600"
    by (rule mod_div_shift) simp_all
  also have "(d div 1000) mod 3600 = d div 1000 - (d div 1000 div 3600) * 3600"
    by (simp add: minus_div_mult_eq_mod)
  finally show ?thesis .
qed

lemma seconds_eq:
  "((d::int) mod (1000 * 60)) div 1000 =
     d div 1000 - (d div 1000 div 3600) * 3600
       - ((d div 1000 - (d div 1000 div 3600) * 3600) div 60) * 60"
proof -
  have "(d mod (1000 * 60)) div 1000 = (d div 1000) mod 60"
    by (rule mod_div_shift) simp_all
  also have "\<dots> = ((d div 1000) mod 3600) mod 60"
    by (simp add: mod_mod_cancel)
  also have "\<dots> = (d div 1000) mod 3600 - ((d div 1000) mod 3600 div 60) * 60"
    by (simp add: minus_div_mult_eq_mod)
  also have "(d div 1000) mod 3600 = d div 1000 - (d div 1000 div 3600) * 3600"
    by (simp add: minus_div_mult_eq_mod)
  finally show ?thesis .
qed

text \<open>The string built by \<open>formatTimeUntil\<close> is the countdown of the specification.\<close>

lemma formatTimeUntil_formatCountdown:
  "formatTimeUntil now target = formatCountdown_spec target now"
proof (cases "target \<le> now")
  case True
  then show ?thesis by (simp add: formatTimeUntil_def formatCountdown_spec_def)
next
  case False
  define d where "d = target - now"
  have d: "0 < d" using False by (simp add: d_def)
  have h: "0 \<le> d div (1000 * 60 * 60)" using d by simp
  have m: "0 \<le> (d mod (1000 * 60 * 60)) div (1000 * 60)"
    by (simp add: pos_imp_zdiv_nonneg_iff)
  have s: "0 \<le> (d mod (1000 * 60)) div 1000"
    by (simp add: pos_imp_zdiv_nonneg_iff)
  have "formatTimeUntil now target =
      padStart 2 CHR ''0'' (toString (d div (1000 * 60 * 60))) @ '':'' @
      padStart 2 CHR ''0'' (toString ((d mod (1000 * 60 * 60)) div (1000 * 60))) @ '':'' @
      padStart 2 CHR ''0'' (toString ((d mod (1000 * 60)) div 1000))"
    using d by (simp add: formatTimeUntil_def Let_def d_def [symmetric] smod_pos)
  also have "\<dots> = twoDigits_spec (d div (1000 * 60 * 60)) @ '':'' @
      twoDigits_spec ((d mod (1000 * 60 * 60)) div (1000 * 60)) @ '':'' @
      twoDigits_spec ((d mod (1000 * 60)) div 1000)"
    by (simp only: pad_two [OF h] pad_two [OF m] pad_two [OF s])
  also have "\<dots> = formatCountdown_spec target now"
    using False
    by (simp only: formatCountdown_spec_def Let_def d_def [symmetric] hours_eq minutes_eq
          seconds_eq if_False)
  finally show ?thesis .
qed

text \<open>The first element of a filtered list is what \<open>find\<close> returns.\<close>

lemma filter_first:
  "(if length (filter P xs) > 0 then Some (filter P xs ! 0) else None) = find P xs"
proof (induction xs)
  case Nil
  show ?case by simp
next
  case (Cons x xs)
  show ?case
  proof (cases "P x")
    case True
    then show ?thesis by simp
  next
    case False
    with Cons show ?thesis by (simp split: if_splits)
  qed
qed

lemma next_is_find:
  "getNextSpecialTime h (Some loc) (Some st) now =
     Inr (Some (case find (\<lambda>e. now < time e) (times_list st) of
                  Some e \<Rightarrow> e
                | None \<Rightarrow> \<lparr> type = ''Blue Hour (Morning)'',
                            time = sunrise (getTimes h (plusOneDay h (clock h))
                                     (latitude loc) (longitude loc)) - 20 * 60000 \<rparr>))"
proof -
  let ?up = "filter (\<lambda>t. now < time t) (times_list st)"
  show ?thesis
  proof (cases "length ?up > 0")
    case True
    with filter_first [of "\<lambda>t. now < time t" "times_list st"]
    have "find (\<lambda>e. now < time e) (times_list st) = Some (?up ! 0)" by simp
    with True show ?thesis by (simp add: getNextSpecialTime_def Let_def)
  next
    case False
    with filter_first [of "\<lambda>t. now < time t" "times_list st"]
    have "find (\<lambda>e. now < time e) (times_list st) = None" by simp
    with False show ?thesis by (simp add: getNextSpecialTime_def Let_def)
  qed
qed

section \<open>The claims\<close>

subsection \<open>C1: the window boundaries\<close>

text \<open>
  Claim C1.  For every sunrise instant \<open>S\<close> and sunset instant \<open>T\<close> the effect computes:
  morning blue from \<open>S\<close> minus 20 minutes to \<open>S\<close>; morning golden from \<open>S\<close> to \<open>S\<close> plus
  30 minutes; evening golden from \<open>T\<close> minus 30 minutes to \<open>T\<close>; evening blue from \<open>T\<close> to
  \<open>T\<close> plus 20 minutes.  A minute is 60000 milliseconds.
\<close>

theorem C1_window_boundaries:
  "blueHourMorningStart (computeWindows \<lparr>sunrise = S, sunset = T\<rparr>) = S - 20 * 60000 \<and>
   blueHourMorningEnd (computeWindows \<lparr>sunrise = S, sunset = T\<rparr>) = S \<and>
   goldenHourMorningStart (computeWindows \<lparr>sunrise = S, sunset = T\<rparr>) = S \<and>
   goldenHourMorningEnd (computeWindows \<lparr>sunrise = S, sunset = T\<rparr>) = S + 30 * 60000 \<and>
   goldenHourEveningStart (computeWindows \<lparr>sunrise = S, sunset = T\<rparr>) = T - 30 * 60000 \<and>
   goldenHourEveningEnd (computeWindows \<lparr>sunrise = S, sunset = T\<rparr>) = T \<and>
   blueHourEveningStart (computeWindows \<lparr>sunrise = S, sunset = T\<rparr>) = T \<and>
   blueHourEveningEnd (computeWindows \<lparr>sunrise = S, sunset = T\<rparr>) = T + 20 * 60000"
  by (simp add: computeWindows_def)

text \<open>Sunrise at 06:00 and sunset at 18:00 (as milliseconds of the day): the morning blue
  window starts at 05:40 and the evening blue window ends at 18:20.\<close>

theorem C1_window_boundaries_witness:
  "blueHourMorningStart (computeWindows \<lparr>sunrise = 21600000, sunset = 64800000\<rparr>) = 20400000 \<and>
   blueHourEveningEnd (computeWindows \<lparr>sunrise = 21600000, sunset = 64800000\<rparr>) = 66000000"
  using C1_window_boundaries [of 21600000 64800000] by simp

subsection \<open>C2: the classifier\<close>

text \<open>
  Claim C2.  With the sun times derived from sunrise \<open>S\<close> and sunset \<open>T\<close>, the classifier
  returns golden exactly when now lies in the closed interval from \<open>S\<close> to \<open>S\<close> plus 30
  minutes or from \<open>T\<close> minus 30 minutes to \<open>T\<close>; blue exactly when now lies in the closed
  interval from \<open>S\<close> minus 20 minutes to \<open>S\<close> or from \<open>T\<close> to \<open>T\<close> plus 20 minutes and is not
  golden; and day otherwise.
\<close>

theorem C2_classifier:
  fixes S T now :: instant
  defines "c \<equiv> getCurrentLightingCondition (Some (newSunTimes \<lparr>sunrise = S, sunset = T\<rparr>)) now"
  defines "inGolden \<equiv>
     (S \<le> now \<and> now \<le> S + 30 * 60000) \<or> (T - 30 * 60000 \<le> now \<and> now \<le> T)"
  defines "inBlue \<equiv>
     (S - 20 * 60000 \<le> now \<and> now \<le> S) \<or> (T \<le> now \<and> now \<le> T + 20 * 60000)"
  shows "(c = Golden \<longleftrightarrow> inGolden) \<and> (c = Blue \<longleftrightarrow> inBlue \<and> \<not> inGolden) \<and>
         (c = Day \<longleftrightarrow> \<not> inGolden \<and> \<not> inBlue)"
  unfolding c_def inGolden_def inBlue_def
  by (simp add: getCurrentLightingCondition_def newSunTimes_def computeWindows_def)

text \<open>At 05:50, with sunrise at 06:00 and sunset at 18:00, the light is blue.\<close>

theorem C2_classifier_witness:
  "getCurrentLightingCondition
     (Some (newSunTimes \<lparr>sunrise = 21600000, sunset = 64800000\<rparr>)) 21000000 = Blue"
  using C2_classifier [of 21600000 64800000 21000000] by simp

subsection \<open>C3: the next special time\<close>

text \<open>
  The candidates are not in chronological order when sunset is less than 30 minutes after
  sunrise.  With sunrise at 0 and sunset 20 minutes later the third candidate (10 minutes
  before sunrise) precedes the second, and 15 minutes before sunrise the function returns
  the morning golden hour at sunrise although the evening golden hour starts earlier.
\<close>

theorem C3_counterexample:
  "\<not> sorted (map time (times_list (newSunTimes \<lparr>sunrise = 0, sunset = 1200000\<rparr>))) \<and>
   getNextSpecialTime (sampleHost 0 1200000 (- 900000)) (Some sampleLocation)
       (Some (newSunTimes \<lparr>sunrise = 0, sunset = 1200000\<rparr>)) (- 900000)
     = Inr (Some \<lparr> type = ''Golden Hour (Morning)'', time = 0 \<rparr>) \<and>
   time (times_list (newSunTimes \<lparr>sunrise = 0, sunset = 1200000\<rparr>) ! 2) = - 600000 \<and>
   (- 900000 :: int) < - 600000 \<and> (- 600000 :: int) < 0"
  by (simp add: times_list_def newSunTimes_def computeWindows_def getNextSpecialTime_def)

text \<open>
  Claim C3, amended.  With a location and sun times whose sunrise is \<open>S\<close> and sunset is
  \<open>T\<close>, \<open>getNextSpecialTime\<close> forms the candidates morning blue start (\<open>S\<close> minus 20
  minutes), morning golden start (\<open>S\<close>), evening golden start (\<open>T\<close> minus 30 minutes) and
  evening blue start (\<open>T\<close>), in this order; the list is chronological when \<open>T\<close> is at least
  30 minutes after \<open>S\<close>.  It returns the first candidate of the list that is strictly
  greater than now; when all four are at most now it returns the sunrise of the provider
  for the next calendar day minus 20 minutes, labelled as the morning blue hour.
\<close>

theorem C3_next_special_time:
  fixes h :: Host and loc :: Location and st :: SunTimes and now :: instant
  defines "S \<equiv> sunrise st" and "T \<equiv> sunset st"
  defines "tomorrowBlue \<equiv>
     \<lparr> type = ''Blue Hour (Morning)'',
       time = sunrise (getTimes h (plusOneDay h (clock h)) (latitude loc) (longitude loc))
                - 20 * 60000 \<rparr>"
  shows "map time (times_list st) = [S - 20 * 60000, S, T - 30 * 60000, T] \<and>
         map type (times_list st) =
           [''Blue Hour (Morning)'', ''Golden Hour (Morning)'',
            ''Golden Hour (Evening)'', ''Blue Hour (Evening)''] \<and>
         (30 * 60000 \<le> T - S \<longrightarrow> sorted (map time (times_list st))) \<and>
         getNextSpecialTime h (Some loc) (Some st) now =
           Inr (Some (case find (\<lambda>e. now < time e) (times_list st) of
                        Some e \<Rightarrow> e | None \<Rightarrow> tomorrowBlue)) \<and>
         (S - 20 * 60000 \<le> now \<and> S \<le> now \<and> T - 30 * 60000 \<le> now \<and> T \<le> now \<longrightarrow>
            getNextSpecialTime h (Some loc) (Some st) now = Inr (Some tomorrowBlue))"
proof -
  have a: "map time (times_list st) = [S - 20 * 60000, S, T - 30 * 60000, T]"
    by (simp add: times_list_def S_def T_def)
  have b: "map type (times_list st) =
           [''Blue Hour (Morning)'', ''Golden Hour (Morning)'',
            ''Golden Hour (Evening)'', ''Blue Hour (Evening)'']"
    by (simp add: times_list_def)
  have c: "30 * 60000 \<le> T - S \<longrightarrow> sorted (map time (times_list st))"
    by (simp add: a)
  have d: "getNextSpecialTime h (Some loc) (Some st) now =
           Inr (Some (case find (\<lambda>e. now < time e) (times_list st) of
                        Some e \<Rightarrow> e | None \<Rightarrow> tomorrowBlue))"
    unfolding tomorrowBlue_def by (rule next_is_find)
  have e: "S - 20 * 60000 \<le> now \<and> S \<le> now \<and> T - 30 * 60000 \<le> now \<and> T \<le> now \<longrightarrow>
            getNextSpecialTime h (Some loc) (Some st) now = Inr (Some tomorrowBlue)"
    by (simp add: d) (simp add: times_list_def S_def T_def)
  from a b c d e show ?thesis by blast
qed

text \<open>Sunrise at 06:00, sunset at 18:00, now 19:00: the list is chronological, all four
  candidates have passed, and the next event is 05:40 of the next day.\<close>

theorem C3_next_special_time_witness:
  "(30 * 60000 \<le> (64800000::int) - 21600000 \<and>
    sorted (map time (times_list (newSunTimes \<lparr>sunrise = 21600000, sunset = 64800000\<rparr>)))) \<and>
   ((21600000::int) - 20 * 60000 \<le> 68400000 \<and> (21600000::int) \<le> 68400000 \<and>
    (64800000::int) - 30 * 60000 \<le> 68400000 \<and> (64800000::int) \<le> 68400000 \<and>
    getNextSpecialTime (sampleHost 21600000 64800000 68400000) (Some sampleLocation)
       (Some (newSunTimes \<lparr>sunrise = 21600000, sunset = 64800000\<rparr>)) 68400000
      = Inr (Some \<lparr> type = ''Blue Hour (Morning)'', time = 106800000 \<rparr>))"
proof -
  let ?st = "newSunTimes \<lparr>sunrise = 21600000, sunset = 64800000\<rparr>"
  let ?h = "sampleHost 21600000 64800000 68400000"
  note t = C3_next_special_time [where st = ?st and now = 68400000 and h = ?h
      and loc = sampleLocation]
  have rise: "sunrise ?st = 21600000" and set: "sunset ?st = 64800000"
    by (simp_all add: newSunTimes_def Let_def)
  have gap: "30 * 60000 \<le> sunset ?st - sunrise ?st"
    by (simp add: rise set)
  have past: "sunrise ?st - 20 * 60000 \<le> 68400000 \<and> sunrise ?st \<le> 68400000 \<and>
              sunset ?st - 30 * 60000 \<le> 68400000 \<and> sunset ?st \<le> 68400000"
    by (simp add: rise set)
  have tomorrow: "sunrise (getTimes ?h (plusOneDay ?h (clock ?h)) (latitude sampleLocation)
                    (longitude sampleLocation)) - 20 * 60000 = 106800000"
    by (simp add: sampleHost_def dailyTimes_def nextUtcDay_def dayMs_def)
  from t gap have a: "sorted (map time (times_list ?st))" by blast
  from t past have "getNextSpecialTime ?h (Some sampleLocation) (Some ?st) 68400000 =
      Inr (Some \<lparr> type = ''Blue Hour (Morning)'',
             time = sunrise (getTimes ?h (plusOneDay ?h (clock ?h)) (latitude sampleLocation)
                    (longitude sampleLocation)) - 20 * 60000 \<rparr>)" by blast
  then have b: "getNextSpecialTime ?h (Some sampleLocation) (Some ?st) 68400000 =
      Inr (Some \<lparr> type = ''Blue Hour (Morning)'', time = 106800000 \<rparr>)"
    by (simp only: tomorrow)
  from a b show ?thesis by simp
qed

subsection \<open>C4: the next special time lies in the future\<close>

text \<open>
  Claim C4 says that with a location and sun times \<open>getNextSpecialTime\<close> returns an event
  whose instant is strictly greater than now, also in the roll-over branch.  The first
  branch keeps only candidates with \<open>time > now\<close>; the roll-over branch returns the next
  day's sunrise minus 20 minutes without that test.  On a day of 23 hours and 40 minutes
  (sunrise at 00:10, sunset at 23:50), with the location fixed at noon, the sun times are
  those of that day; at 23:55 all four candidates have passed, and the event returned is
  the morning blue hour at 23:50 of the same day, five minutes before now.
\<close>

theorem C4_rollover_not_after_now:
  "sunTimes (sunTimesEffect (sampleHost 600000 85800000 43200000)
       \<lparr> location = Some sampleLocation, sunTimes = None, currentTime = 43200000 \<rparr>)
     = Some (newSunTimes \<lparr>sunrise = 600000, sunset = 85800000\<rparr>) \<and>
   getNextSpecialTime (sampleHost 600000 85800000 86100000) (Some sampleLocation)
       (Some (newSunTimes \<lparr>sunrise = 600000, sunset = 85800000\<rparr>)) 86100000
     = Inr (Some \<lparr> type = ''Blue Hour (Morning)'', time = 85800000 \<rparr>) \<and>
   (85800000::int) \<le> 86100000"
  by (simp add: sunTimesEffect_def getNextSpecialTime_def times_list_def newSunTimes_def
        computeWindows_def sampleHost_def sampleLocation_def dailyTimes_def nextUtcDay_def
        dayMs_def)

subsection \<open>C5: the countdown string\<close>

text \<open>
  Claim C5.  \<open>formatTimeUntil\<close> returns 00:00:00 whenever the target is not after now;
  otherwise it returns the remaining whole hours, minutes and seconds, each cut off and
  written with at least two digits, the hours not wrapped at 24.  A target 3661 seconds
  after now gives 01:01:01; a target 25 hours after now gives 25:00:00.
\<close>

theorem C5_countdown:
  "formatTimeUntil now target = formatCountdown_spec target now \<and>
   (target \<le> now \<longrightarrow> formatTimeUntil now target = ''00:00:00'') \<and>
   formatTimeUntil now (now + 3661 * 1000) = ''01:01:01'' \<and>
   formatTimeUntil now (now + 25 * 3600 * 1000) = ''25:00:00''"
proof -
  have a: "formatTimeUntil now target = formatCountdown_spec target now"
    by (rule formatTimeUntil_formatCountdown)
  have b: "target \<le> now \<longrightarrow> formatTimeUntil now target = ''00:00:00''"
    by (simp add: formatTimeUntil_def)
  have c: "formatTimeUntil now (now + 3661 * 1000) = ''01:01:01''"
    by (simp add: formatTimeUntil_def smod_pos padStart_def toString_def digits_1)
  have d: "formatTimeUntil now (now + 25 * 3600 * 1000) = ''25:00:00''"
    by (simp add: formatTimeUntil_def smod_pos padStart_def toString_def digits_0 digits_25)
  from a b c d show ?thesis by blast
qed

text \<open>A target half a second before now.\<close>

theorem C5_countdown_witness:
  "(500::int) \<le> 1000 \<and> formatTimeUntil 1000 500 = ''00:00:00''"
proof -
  have "(500::int) \<le> 1000" by simp
  with C5_countdown [of 1000 500] show ?thesis by blast
qed

subsection \<open>C6: shared boundaries and disjoint windows\<close>

text \<open>
  With sunset 55 minutes after sunrise the gap exceeds 50 minutes, yet the morning golden
  window (0 to 30 minutes) and the evening golden window (25 to 55 minutes) overlap.
\<close>

theorem C6_counterexample:
  "(3300000::int) - 0 > 50 * 60000 \<and>
   overlap (morningGolden (computeWindows \<lparr>sunrise = 0, sunset = 3300000\<rparr>))
           (eveningGolden (computeWindows \<lparr>sunrise = 0, sunset = 3300000\<rparr>))"
  by (simp add: overlap_def morningGolden_def eveningGolden_def computeWindows_def)

text \<open>
  Claim C6, amended.  For every sunrise \<open>S\<close> and sunset \<open>T\<close> the morning blue window ends
  where the morning golden window starts (both at \<open>S\<close>) and the evening golden window ends
  where the evening blue window starts (both at \<open>T\<close>); and whenever \<open>T\<close> is at least 60
  minutes after \<open>S\<close>, the four windows, read as half-open intervals, are pairwise
  non-overlapping.
\<close>

theorem C6_windows_disjoint:
  fixes S T :: instant
  defines "w \<equiv> computeWindows \<lparr>sunrise = S, sunset = T\<rparr>"
  shows "snd (morningBlue w) = fst (morningGolden w) \<and> fst (morningGolden w) = S \<and>
         snd (eveningGolden w) = fst (eveningBlue w) \<and> fst (eveningBlue w) = T \<and>
         (T - S \<ge> 60 * 60000 \<longrightarrow>
            \<not> overlap (morningBlue w) (morningGolden w) \<and>
            \<not> overlap (morningBlue w) (eveningGolden w) \<and>
            \<not> overlap (morningBlue w) (eveningBlue w) \<and>
            \<not> overlap (morningGolden w) (eveningGolden w) \<and>
            \<not> overlap (morningGolden w) (eveningBlue w) \<and>
            \<not> overlap (eveningGolden w) (eveningBlue w))"
  unfolding w_def
  by (simp add: overlap_def morningBlue_def morningGolden_def eveningGolden_def
        eveningBlue_def computeWindows_def)

text \<open>Sunrise at 06:00 and sunset at 18:00: the two golden windows do not overlap.\<close>

theorem C6_windows_disjoint_witness:
  "(64800000::int) - 21600000 \<ge> 60 * 60000 \<and>
   \<not> overlap (morningGolden (computeWindows \<lparr>sunrise = 21600000, sunset = 64800000\<rparr>))
             (eveningGolden (computeWindows \<lparr>sunrise = 21600000, sunset = 64800000\<rparr>))"
proof -
  have gap: "(64800000::int) - 21600000 \<ge> 60 * 60000" by simp
  with C6_windows_disjoint [of 21600000 64800000] show ?thesis by blast
qed

subsection \<open>C7: the order of the two tests\<close>

text \<open>
  With sunrise at 06:00 and sunset at 18:00, at the instant of sunrise the classifier
  returns golden and the blue-first variant returns blue.
\<close>

theorem C7_counterexample:
  "(64800000::int) - 21600000 > 50 * 60000 \<and>
   getCurrentLightingCondition
     (Some (newSunTimes \<lparr>sunrise = 21600000, sunset = 64800000\<rparr>)) 21600000 = Golden \<and>
   classifyBlueFirst
     (Some (newSunTimes \<lparr>sunrise = 21600000, sunset = 64800000\<rparr>)) 21600000 = Blue"
  by (simp add: getCurrentLightingCondition_def classifyBlueFirst_def newSunTimes_def
        computeWindows_def)

text \<open>
  Claim C7, amended.  For every now, sunrise \<open>S\<close> and sunset \<open>T\<close> with \<open>T\<close> more than 50
  minutes after \<open>S\<close>, the blue-first variant returns the same state as the classifier at
  every instant other than \<open>S\<close> and \<open>T\<close>; at \<open>S\<close> and at \<open>T\<close> the classifier returns golden
  and the variant returns blue.
\<close>

theorem C7_test_order:
  fixes S T now :: instant
  defines "st \<equiv> Some (newSunTimes \<lparr>sunrise = S, sunset = T\<rparr>)"
  assumes "T - S > 50 * 60000"
  shows "(now \<noteq> S \<and> now \<noteq> T \<longrightarrow>
            classifyBlueFirst st now = getCurrentLightingCondition st now) \<and>
         getCurrentLightingCondition st S = Golden \<and> classifyBlueFirst st S = Blue \<and>
         getCurrentLightingCondition st T = Golden \<and> classifyBlueFirst st T = Blue"
  using assms(2) unfolding st_def
  by (simp add: getCurrentLightingCondition_def classifyBlueFirst_def newSunTimes_def
        computeWindows_def)

text \<open>Sunrise at 06:00, sunset at 18:00, now at noon.\<close>

theorem C7_test_order_witness:
  "(64800000::int) - 21600000 > 50 * 60000 \<and>
   ((43200000::int) \<noteq> 21600000 \<and> (43200000::int) \<noteq> 64800000) \<and>
   classifyBlueFirst (Some (newSunTimes \<lparr>sunrise = 21600000, sunset = 64800000\<rparr>)) 43200000
     = getCurrentLightingCondition
         (Some (newSunTimes \<lparr>sunrise = 21600000, sunset = 64800000\<rparr>)) 43200000"
proof -
  have gap: "(64800000::int) - 21600000 > 50 * 60000" by simp
  have off: "(43200000::int) \<noteq> 21600000 \<and> (43200000::int) \<noteq> 64800000" by simp
  from C7_test_order [OF gap, of 43200000] gap off show ?thesis by blast
qed

subsection \<open>C8: the derivation is deterministic and idempotent\<close>

text \<open>
  The effect has no date argument: it reads the wall clock and hands that instant to the
  provider.  On one UTC calendar date and at one coordinate, a run at 00:30 and a run at
  02:00 store different sun times under a provider that answers for the nearest solar
  noon: the first run gets the sunrise of the day before (07:00), the second the sunrise
  of the day itself (31:00 counted from the first midnight), and so the windows differ.
\<close>

theorem C8_counterexample:
  "utcDate 88200000 = utcDate 93600000 \<and>
   sunTimes (sunTimesEffect (westHost 88200000)
       \<lparr> location = Some westLocation, sunTimes = None, currentTime = 88200000 \<rparr>)
     = Some (newSunTimes \<lparr>sunrise = 25200000, sunset = 68400000\<rparr>) \<and>
   sunTimes (sunTimesEffect (westHost 93600000)
       \<lparr> location = Some westLocation, sunTimes = None, currentTime = 88200000 \<rparr>)
     = Some (newSunTimes \<lparr>sunrise = 111600000, sunset = 154800000\<rparr>) \<and>
   computeWindows \<lparr>sunrise = 25200000, sunset = 68400000\<rparr>
     \<noteq> computeWindows \<lparr>sunrise = 111600000, sunset = 154800000\<rparr>"
  by (simp add: utcDate_def sunTimesEffect_def westHost_def westLocation_def
        nearestNoonTimes_def dayMs_def computeWindows_def)

text \<open>
  Claim C8, amended.  The window derivation is deterministic in the sunrise and sunset the
  provider returns.  With a location present, and \<open>S\<close> and \<open>T\<close> the sunrise and sunset the
  provider returns for the wall-clock instant and the coordinate, the effect stores
  sunrise \<open>S\<close>, sunset \<open>T\<close>, golden hour start \<open>S\<close>, golden hour end \<open>T\<close>, blue hour start
  \<open>S\<close> minus 20 minutes and blue hour end \<open>T\<close> plus 20 minutes, whatever the sun times and
  the current time held before and whatever the rest of the host.  So a second evaluation,
  from any state with that location and under any host whose provider returns the same
  pair, stores identical sun times; running the effect again changes nothing; and the
  effect changes no other part of the state.  The date is not an input of its own: the
  provider is asked about the wall-clock instant.
\<close>

theorem C8_effect_deterministic:
  fixes h h' :: Host and s s' :: AppState and loc :: Location
  defines "S \<equiv> sunrise (getTimes h (clock h) (latitude loc) (longitude loc))"
  defines "T \<equiv> sunset (getTimes h (clock h) (latitude loc) (longitude loc))"
  assumes "location s = Some loc"
  shows "sunTimes (sunTimesEffect h s) =
           Some \<lparr> sunrise = S, sunset = T, goldenHourStart = S, goldenHourEnd = T,
                  blueHourStart = S - 20 * 60000, blueHourEnd = T + 20 * 60000 \<rparr> \<and>
         computeWindows (getTimes h (clock h) (latitude loc) (longitude loc)) =
           \<lparr> goldenHourMorningStart = S, goldenHourMorningEnd = S + 30 * 60000,
             goldenHourEveningStart = T - 30 * 60000, goldenHourEveningEnd = T,
             blueHourMorningStart = S - 20 * 60000, blueHourMorningEnd = S,
             blueHourEveningStart = T, blueHourEveningEnd = T + 20 * 60000 \<rparr> \<and>
         (location s' = Some loc \<and>
          getTimes h' (clock h') (latitude loc) (longitude loc) =
            getTimes h (clock h) (latitude loc) (longitude loc) \<longrightarrow>
          sunTimes (sunTimesEffect h' s') = sunTimes (sunTimesEffect h s)) \<and>
         sunTimesEffect h (sunTimesEffect h s) = sunTimesEffect h s \<and>
         location (sunTimesEffect h s) = location s \<and>
         currentTime (sunTimesEffect h s) = currentTime s"
  using assms(3) unfolding S_def T_def
  by (simp add: sunTimesEffect_def newSunTimes_def computeWindows_def)

text \<open>Two runs on the same day, at noon from a fresh state and at 13:00 from a state that
  already holds sun times: both store the windows of sunrise at 06:00 and sunset at
  18:00.\<close>

theorem C8_effect_deterministic_witness:
  "sunTimes (sunTimesEffect (sampleHost 21600000 64800000 43200000)
       \<lparr> location = Some sampleLocation, sunTimes = None, currentTime = 43200000 \<rparr>)
     = Some \<lparr> sunrise = 21600000, sunset = 64800000, goldenHourStart = 21600000,
              goldenHourEnd = 64800000, blueHourStart = 20400000,
              blueHourEnd = 66000000 \<rparr> \<and>
   sunTimes (sunTimesEffect (sampleHost 21600000 64800000 46800000)
       \<lparr> location = Some sampleLocation,
         sunTimes = Some (newSunTimes \<lparr>sunrise = 1, sunset = 2\<rparr>),
         currentTime = 46800000 \<rparr>)
   = sunTimes (sunTimesEffect (sampleHost 21600000 64800000 43200000)
       \<lparr> location = Some sampleLocation, sunTimes = None, currentTime = 43200000 \<rparr>)"
proof -
  let ?h = "sampleHost 21600000 64800000 43200000"
  let ?h' = "sampleHost 21600000 64800000 46800000"
  let ?s = "\<lparr> location = Some sampleLocation, sunTimes = None, currentTime = 43200000 \<rparr>"
  let ?s' = "\<lparr> location = Some sampleLocation,
               sunTimes = Some (newSunTimes \<lparr>sunrise = 1, sunset = 2\<rparr>),
               currentTime = 46800000 \<rparr>"
  have l: "location ?s = Some sampleLocation" and l': "location ?s' = Some sampleLocation"
    by simp_all
  have g: "getTimes ?h (clock ?h) (latitude sampleLocation) (longitude sampleLocation)
             = \<lparr>sunrise = 21600000, sunset = 64800000\<rparr>"
    by (simp add: sampleHost_def dailyTimes_def dayMs_def)
  have g': "getTimes ?h' (clock ?h') (latitude sampleLocation) (longitude sampleLocation)
             = getTimes ?h (clock ?h) (latitude sampleLocation) (longitude sampleLocation)"
    by (simp add: sampleHost_def dailyTimes_def dayMs_def)
  note t = C8_effect_deterministic [OF l, where h' = ?h' and s' = ?s']
  from t have a: "sunTimes (sunTimesEffect ?h ?s) =
      Some \<lparr> sunrise = 21600000, sunset = 64800000, goldenHourStart = 21600000,
             goldenHourEnd = 64800000, blueHourStart = 21600000 - 20 * 60000,
             blueHourEnd = 64800000 + 20 * 60000 \<rparr>"
    by (simp only: g Times.simps)
  from t l' g' have b: "sunTimes (sunTimesEffect ?h' ?s') = sunTimes (sunTimesEffect ?h ?s)"
    by blast
  from a b show ?thesis by simp
qed

subsection \<open>C9: the last second\<close>

text \<open>
  Claim C9.  For every target and now with the target less than 1000 milliseconds after
  now, \<open>formatTimeUntil\<close> returns 00:00:00, the string it returns for a target that has
  passed.
\<close>

theorem C9_last_second:
  assumes "0 < target - now" and "target - now < 1000"
  shows "formatTimeUntil now target = ''00:00:00'' \<and>
         formatTimeUntil now target = formatTimeUntil now now"
  using assms
  by (simp add: formatTimeUntil_def smod_pos padStart_def toString_def digits_0)

text \<open>A target 999 milliseconds after now.\<close>

theorem C9_last_second_witness:
  "(0::int) < 999 - 0 \<and> (999::int) - 0 < 1000 \<and> formatTimeUntil 0 999 = ''00:00:00''"
proof -
  have h1: "(0::int) < 999 - 0" and h2: "(999::int) - 0 < 1000" by simp_all
  from C9_last_second [OF h1 h2] h1 h2 show ?thesis by blast
qed

subsection \<open>C10: before the first location fix\<close>

text \<open>
  Claim C10.  While the sun times are absent, for every now the classifier returns day
  and \<open>getNextSpecialTime\<close> returns \<open>null\<close>, whatever the host and the location.
\<close>

theorem C10_no_sun_times:
  "getCurrentLightingCondition None now = Day \<and>
   getNextSpecialTime h loc None now = Inr None"
  by (simp add: getCurrentLightingCondition_def getNextSpecialTime_def)

end
